theory Spec2Isabelle
  imports Main "HOL-Library.Sublist"
begin

section \<open>Text: Python \<open>str\<close> operations used by the cleaner\<close>

text \<open>
  A Python \<open>str\<close> is a sequence of code points. The model is \<^typ>\<open>string\<close>, a list of
  \<^typ>\<open>char\<close>, where a \<^typ>\<open>char\<close> stands for the code point of the same number, so the
  model covers the strings whose code points are below 256. On that range \<open>str.lower\<close>,
  \<open>str.strip\<close>, \<open>\s\<close>, \<open>\d\<close> and case-insensitive literal matching all work character
  by character, as written out below.
\<close>

definition isspace :: "char \<Rightarrow> bool" where
  \<comment> \<open>\<open>str.isspace\<close> on one character, which is also the class \<open>\s\<close> of \<open>re\<close> and what
      \<open>str.strip()\<close> removes: TAB, LF, VT, FF, CR, FS, GS, RS, US, SPACE, NEL, NBSP.\<close>
  "isspace c =
     (let n = (of_char c :: nat)
      in (9 \<le> n \<and> n \<le> 13) \<or> (28 \<le> n \<and> n \<le> 32) \<or> n = 133 \<or> n = 160)"

definition isdigit :: "char \<Rightarrow> bool" where
  \<comment> \<open>the class \<open>\d\<close> of \<open>re\<close>: the decimal digits \<open>0\<close> to \<open>9\<close>.\<close>
  "isdigit c = (let n = (of_char c :: nat) in 48 \<le> n \<and> n \<le> 57)"

definition lower_chr :: "char \<Rightarrow> char" where
  \<comment> \<open>\<open>str.lower\<close> on one character: \<open>A\<close> to \<open>Z\<close> and the capital letters \<open>0xC0\<close> to
      \<open>0xDE\<close> (without the multiplication sign \<open>0xD7\<close>) move up by 32.\<close>
  "lower_chr c =
     (let n = (of_char c :: nat)
      in if (65 \<le> n \<and> n \<le> 90) \<or> (192 \<le> n \<and> n \<le> 222 \<and> n \<noteq> 215)
         then char_of (n + 32) else c)"

definition lower :: "string \<Rightarrow> string" where
  "lower s = map lower_chr s"

definition startswith :: "string \<Rightarrow> string \<Rightarrow> bool" where
  \<comment> \<open>\<open>s.startswith(p)\<close>\<close>
  "startswith s p = prefix p s"

definition strip :: "string \<Rightarrow> string" where
  \<comment> \<open>\<open>s.strip()\<close>: leading and trailing whitespace removed.\<close>
  "strip s = rev (dropWhile isspace (rev (dropWhile isspace s)))"

section \<open>The four anchored patterns of \<open>clean_definition\<close>\<close>

text \<open>
  Every pattern of \<open>clean_definition\<close> starts with \<open>^\<close> and is used without
  \<open>re.MULTILINE\<close>, so it can match at position 0 only and \<open>re.sub(pattern, '', s)\<close>
  either returns \<open>s\<close> unchanged or \<open>s\<close> without the matched prefix. A matcher below
  takes the text and returns the text after the match, or \<open>None\<close>.

  The quantified pieces are character classes that exclude the character that may
  follow them (\<open>\s*\<close> before \<open>:\<close> or \<open>\d\<close>, \<open>\d*\<close> before \<open>\.\<close> or \<open>\s\<close>), so the greedy
  match is the only candidate and no backtracking is involved.
\<close>

fun lit_ci :: "string \<Rightarrow> string \<Rightarrow> string option" where
  \<comment> \<open>\<open>re.escape(word)\<close> under \<open>re.IGNORECASE\<close>: the word, letter by letter, up to case.\<close>
  "lit_ci [] s = Some s"
| "lit_ci (p # ps) [] = None"
| "lit_ci (p # ps) (c # cs) = (if lower_chr c = lower_chr p then lit_ci ps cs else None)"

definition star :: "(char \<Rightarrow> bool) \<Rightarrow> string \<Rightarrow> string" where
  \<comment> \<open>\<open>\s*\<close>, \<open>\d*\<close>: as many characters of the class as there are.\<close>
  "star P s = dropWhile P s"

definition plus1 :: "(char \<Rightarrow> bool) \<Rightarrow> string \<Rightarrow> string option" where
  \<comment> \<open>\<open>\d+\<close>: at least one character of the class.\<close>
  "plus1 P s = (case s of [] \<Rightarrow> None | c # cs \<Rightarrow> if P c then Some (star P cs) else None)"

definition chr1 :: "char \<Rightarrow> string \<Rightarrow> string option" where
  \<comment> \<open>one literal character (the colon, which has no case).\<close>
  "chr1 x s = (case s of [] \<Rightarrow> None | c # cs \<Rightarrow> if c = x then Some cs else None)"

definition opt_chr :: "char \<Rightarrow> string \<Rightarrow> string" where
  \<comment> \<open>\<open>\.?\<close>: the character if it is there.\<close>
  "opt_chr x s = (case s of [] \<Rightarrow> [] | c # cs \<Rightarrow> if c = x then cs else s)"

definition pattern :: "string \<Rightarrow> string \<Rightarrow> string option" where
  \<comment> \<open>\<open>r'^' + re.escape(word) + r'\s*:\s*'\<close> with \<open>re.IGNORECASE\<close>\<close>
  "pattern word s =
     Option.bind (lit_ci word s) (\<lambda>r.
     Option.bind (chr1 (CHR '':'') (star isspace r)) (\<lambda>r.
     Some (star isspace r)))"

definition colon_pattern :: "string \<Rightarrow> string option" where
  \<comment> \<open>\<open>r'^:\s*'\<close>\<close>
  "colon_pattern s = Option.bind (chr1 (CHR '':'') s) (\<lambda>r. Some (star isspace r))"

definition word_pattern :: "string \<Rightarrow> string \<Rightarrow> string option" where
  \<comment> \<open>\<open>r'^' + re.escape(word) + r'\s*\d*\.?\s*'\<close> with \<open>re.IGNORECASE\<close>\<close>
  "word_pattern word s =
     Option.bind (lit_ci word s) (\<lambda>r.
     Some (star isspace (opt_chr (CHR ''.'') (star isdigit (star isspace r)))))"

definition numbering_pattern :: "string \<Rightarrow> string option" where
  \<comment> \<open>\<open>r'^(\d+\.?\s*)'\<close>\<close>
  "numbering_pattern s =
     Option.bind (plus1 isdigit s) (\<lambda>r. Some (star isspace (opt_chr (CHR ''.'') r)))"

definition re_sub :: "(string \<Rightarrow> string option) \<Rightarrow> string \<Rightarrow> string" where
  \<comment> \<open>\<open>re.sub(p, '', s)\<close> for an anchored pattern \<open>p\<close>\<close>
  "re_sub p s = (case p s of None \<Rightarrow> s | Some rest \<Rightarrow> rest)"

section \<open>\<open>clean_definition\<close>\<close>

definition unwanted_prefixes :: "string list" where
  "unwanted_prefixes = [''definisi:'', ''arti:'', ''makna:'', ''pengertian:'']"

definition remove_prefix :: "string \<Rightarrow> string \<Rightarrow> string" where
  \<comment> \<open>the body of the loop over \<open>unwanted_prefixes\<close>\<close>
  "remove_prefix definition pfx =
     (if startswith (lower definition) pfx
      then strip (drop (length pfx) definition) else definition)"

definition clean_definition :: "string \<Rightarrow> string \<Rightarrow> string" where
  "clean_definition word definition =
     (let d1 = strip (re_sub (pattern word) definition);
          d2 = strip (re_sub colon_pattern d1);
          d3 = (if startswith (lower d2) (lower word)
                then strip (re_sub (word_pattern word) d2) else d2);
          d4 = strip (re_sub numbering_pattern d3)
      in foldl remove_prefix d4 unwanted_prefixes)"

definition no_leading_artifact :: "string \<Rightarrow> string \<Rightarrow> bool" where
  \<comment> \<open>The spec's \<open>already-clean text\<close>, read as: a text that begins with none of the things
      the cleaner removes, that is the word (up to case), a colon, a digit, or one of the
      unwanted prefixes (up to case).\<close>
  "no_leading_artifact word t =
     (\<not> startswith (lower t) (lower word)
      \<and> \<not> startswith t '':''
      \<and> \<not> (case t of [] \<Rightarrow> False | c # cs \<Rightarrow> isdigit c)
      \<and> list_all (\<lambda>p. \<not> startswith (lower t) p) unwanted_prefixes)"

section \<open>The world outside the program\<close>

text \<open>
  The program talks to a model server over HTTP, reads two CSV files and writes one.
  What the world answers is an input of the model (\<open>world\<close>); what the program does to
  the world is a list of events, in the order in which they happen. The progress bar of
  \<open>tqdm\<close> is not part of the events, and an interrupt from outside (which is not an
  \<open>Exception\<close>) is not part of the model.
\<close>

datatype json =
    JNull
  | JBool bool
  | JNumber
  | JString string
  | JArray "json list"
  | JObject "(string \<times> json) list"
  \<comment> \<open>What \<open>response.json()\<close> returns. An object is the list of the items of the parsed
      \<open>dict\<close> (its keys are distinct); the value of a number is never looked at.\<close>

datatype exn = ConnectionError | Timeout | OtherException
  \<comment> \<open>A raised exception, by the \<open>except\<close> clause that takes it:
      \<open>requests.exceptions.ConnectionError\<close>, \<open>requests.exceptions.Timeout\<close>, and any other
      instance of \<open>Exception\<close> (an \<open>AttributeError\<close>, a \<open>TypeError\<close>, a JSON decoding error).\<close>

datatype reply = Reply int "json option" | Raises exn
  \<comment> \<open>The outcome of one HTTP request: a response with its \<open>status_code\<close> and its body
      (\<open>None\<close> when the body is not JSON, so that \<open>response.json()\<close> raises), or an exception
      raised by \<open>requests\<close>.\<close>

datatype 'a read = Loaded 'a | FileNotFoundError | ReadError
  \<comment> \<open>The outcome of \<open>pd.read_csv\<close>: the table, \<open>FileNotFoundError\<close>, or another exception.\<close>

datatype words_table = Words "string list" | NoWordColumn nat
  \<comment> \<open>The table of \<open>word.csv\<close>: its column \<open>word\<close>, or a table of so many rows without
      that column.\<close>

type_synonym reference_table = "(string \<times> string) list"
  \<comment> \<open>The table of \<open>reference.csv\<close>, row by row: the cell of column \<open>word\<close> and the cell of
      column \<open>definition\<close>, both strings as in the data model.\<close>

record world =
  api_version :: reply
  api_tags :: reply
  api_generate :: "nat \<Rightarrow> reply"
  word_csv :: "words_table read"
  reference_csv :: "reference_table read"
  to_csv_raises :: bool

text \<open>
  \<open>api_version\<close> and \<open>api_tags\<close> are the outcomes of the two GET requests,
  \<open>api_generate n\<close> the outcome of the POST request number \<open>n\<close> (counting from 0) to the
  generation endpoint, \<open>word_csv\<close> and \<open>reference_csv\<close> the outcomes of the two
  \<open>pd.read_csv\<close> calls, and \<open>to_csv_raises\<close> says whether writing the output file raises.
\<close>

type_synonym result = "(string \<times> string) list"
  \<comment> \<open>The \<open>dict\<close> built for one word, as the list of its items in insertion order.\<close>

datatype msg =
    Banner
  | Rule
  | OllamaRunning
  | ModelAvailable string
  | ModelNotFound string "json list"
  | PleaseRun string
  | CouldNotFetch
  | NotRunning
  | CannotConnect
  | ErrorChecking exn
  | HttpError int string
  | TimeoutFor string int int
  | ErrorGenerating string int int exn
  | WordListLoaded nat
  | ReferenceLoaded nat
  | FileNotFound
  | MakeSure
  | ErrorLoading
  | Generating nat
  | Saved string
  | Complete
  \<comment> \<open>The lines the program prints, one constructor for each \<open>print\<close> of the source, with
      those of the interpolated values that the model keeps.\<close>

datatype event =
    Print msg
  | Get string
  | Post string string
  | Sleep nat
  | Read_csv string
  | To_csv string "result list"
  \<comment> \<open>\<open>Get url\<close> and \<open>Post url word\<close> are the HTTP requests (the payload of a POST is fixed
      but for the word in its prompt), \<open>Sleep ms\<close> is \<open>time.sleep\<close> in milliseconds,
      \<open>Read_csv\<close> and \<open>To_csv\<close> are the file accesses.\<close>

definition OLLAMA_BASE_URL :: string where
  "OLLAMA_BASE_URL = ''http://localhost:11434''"

definition MODEL_NAME :: string where
  "MODEL_NAME = ''llama3.2:3b''"

section \<open>Python operations on JSON values\<close>

definition dict_get :: "json \<Rightarrow> string \<Rightarrow> json \<Rightarrow> exn + json" where
  \<comment> \<open>\<open>x.get(key, dflt)\<close>: only a \<open>dict\<close> has \<open>get\<close>, anything else raises
      \<open>AttributeError\<close>.\<close>
  "dict_get x key dflt =
     (case x of
        JObject items \<Rightarrow> (case map_of items key of Some v \<Rightarrow> Inr v | None \<Rightarrow> Inr dflt)
      | _ \<Rightarrow> Inl OtherException)"

definition iterate :: "json \<Rightarrow> exn + json list" where
  \<comment> \<open>\<open>for model in x\<close>: the elements of a list, the keys of a \<open>dict\<close>, the characters of a
      \<open>str\<close>; \<open>None\<close>, a \<open>bool\<close> and a number are not iterable (\<open>TypeError\<close>).\<close>
  "iterate x =
     (case x of
        JArray xs \<Rightarrow> Inr xs
      | JObject items \<Rightarrow> Inr (map (\<lambda>item. JString (fst item)) items)
      | JString s \<Rightarrow> Inr (map (\<lambda>c. JString [c]) s)
      | _ \<Rightarrow> Inl OtherException)"

fun names_of :: "json list \<Rightarrow> exn + json list" where
  \<comment> \<open>\<open>[model.get('name', '') for model in models]\<close>\<close>
  "names_of [] = Inr []"
| "names_of (model # models) =
     (case dict_get model ''name'' (JString '''') of
        Inl e \<Rightarrow> Inl e
      | Inr name \<Rightarrow> (case names_of models of Inl e \<Rightarrow> Inl e | Inr names \<Rightarrow> Inr (name # names)))"

definition model_names :: "json option \<Rightarrow> exn + json list" where
  \<comment> \<open>lines 29 and 30: \<open>models_response.json().get('models', [])\<close>, then the names.\<close>
  "model_names body =
     (case body of
        None \<Rightarrow> Inl OtherException
      | Some j \<Rightarrow>
          (case dict_get j ''models'' (JArray []) of
             Inl e \<Rightarrow> Inl e
           | Inr models \<Rightarrow> (case iterate models of Inl e \<Rightarrow> Inl e | Inr ms \<Rightarrow> names_of ms)))"

section \<open>\<open>check_ollama_connection\<close>\<close>

definition check_try :: "world \<Rightarrow> event list \<times> (exn + bool)" where
  \<comment> \<open>The \<open>try\<close> block: what it does, and whether it returns or raises.\<close>
  "check_try env =
     (case api_version env of
        Raises e \<Rightarrow> ([Get (OLLAMA_BASE_URL @ ''/api/version'')], Inl e)
      | Reply status_code b \<Rightarrow>
          if status_code = 200 then
            (case api_tags env of
               Raises e \<Rightarrow>
                 ([Get (OLLAMA_BASE_URL @ ''/api/version''), Print OllamaRunning,
                   Get (OLLAMA_BASE_URL @ ''/api/tags'')], Inl e)
             | Reply models_status_code body \<Rightarrow>
                 if models_status_code = 200 then
                   (case model_names body of
                      Inl e \<Rightarrow>
                        ([Get (OLLAMA_BASE_URL @ ''/api/version''), Print OllamaRunning,
                          Get (OLLAMA_BASE_URL @ ''/api/tags'')], Inl e)
                    | Inr names \<Rightarrow>
                        if JString MODEL_NAME \<in> set names then
                          ([Get (OLLAMA_BASE_URL @ ''/api/version''), Print OllamaRunning,
                            Get (OLLAMA_BASE_URL @ ''/api/tags''),
                            Print (ModelAvailable MODEL_NAME)], Inr True)
                        else
                          ([Get (OLLAMA_BASE_URL @ ''/api/version''), Print OllamaRunning,
                            Get (OLLAMA_BASE_URL @ ''/api/tags''),
                            Print (ModelNotFound MODEL_NAME names),
                            Print (PleaseRun MODEL_NAME)], Inr False))
                 else
                   ([Get (OLLAMA_BASE_URL @ ''/api/version''), Print OllamaRunning,
                     Get (OLLAMA_BASE_URL @ ''/api/tags''), Print CouldNotFetch], Inr False))
          else
            ([Get (OLLAMA_BASE_URL @ ''/api/version''), Print NotRunning], Inr False))"

definition check_ollama_connection :: "world \<Rightarrow> bool \<times> event list" where
  \<comment> \<open>The \<open>try\<close> block under its two handlers: the value returned and the events.\<close>
  "check_ollama_connection env =
     (case check_try env of
        (evs, Inr b) \<Rightarrow> (b, evs)
      | (evs, Inl ConnectionError) \<Rightarrow> (False, evs @ [Print CannotConnect])
      | (evs, Inl e) \<Rightarrow> (False, evs @ [Print (ErrorChecking e)]))"

section \<open>\<open>generate_definition_ollama\<close>\<close>

fun str_nat :: "nat \<Rightarrow> string" where
  \<comment> \<open>the decimal digits of a natural number\<close>
  "str_nat n =
     (if n < 10 then [char_of (48 + n)] else str_nat (n div 10) @ [char_of (48 + n mod 10)])"

declare str_nat.simps [simp del]

definition str_int :: "int \<Rightarrow> string" where
  \<comment> \<open>Python's \<open>str\<close> of an \<open>int\<close>, as an f-string interpolates it.\<close>
  "str_int i = (if i < 0 then CHR ''-'' # str_nat (nat (- i)) else str_nat (nat i))"

definition response_text :: "json option \<Rightarrow> exn + string" where
  \<comment> \<open>lines 107 and 108: \<open>response.json()\<close>, \<open>.get('response', '')\<close>, \<open>.strip()\<close>; only a
      \<open>str\<close> has \<open>strip\<close>.\<close>
  "response_text body =
     (case body of
        None \<Rightarrow> Inl OtherException
      | Some j \<Rightarrow>
          (case dict_get j ''response'' (JString '''') of
             Inl e \<Rightarrow> Inl e
           | Inr (JString s) \<Rightarrow> Inr (strip s)
           | Inr _ \<Rightarrow> Inl OtherException))"

datatype attempt = Returned string | HttpFailure int | Raised exn
  \<comment> \<open>How one pass through the \<open>try\<close> block of the retry loop ends: it returns the cleaned
      definition, it falls through the \<open>else\<close> branch with a status that is not 200, or it
      raises.\<close>

definition try_generate :: "reply \<Rightarrow> string \<Rightarrow> attempt" where
  "try_generate r word =
     (case r of
        Raises e \<Rightarrow> Raised e
      | Reply status_code body \<Rightarrow>
          if status_code = 200 then
            (case response_text body of
               Inl e \<Rightarrow> Raised e
             | Inr definition \<Rightarrow> Returned (clean_definition word definition))
          else HttpFailure status_code)"

definition wait_before_retry :: "int \<Rightarrow> int \<Rightarrow> event list" where
  \<comment> \<open>lines 121 and 122\<close>
  "wait_before_retry attempt max_retries = (if attempt < max_retries - 1 then [Sleep 2000] else [])"

fun retry_loop :: "world \<Rightarrow> string \<Rightarrow> int \<Rightarrow> int list \<Rightarrow> nat \<Rightarrow> string option \<times> nat \<times> event list" where
  \<comment> \<open>The \<open>for attempt in range(max_retries)\<close> loop over the attempts that are left; \<open>n\<close>
      counts the POST requests issued so far. \<open>Some\<close> is the \<open>return\<close> inside the loop,
      \<open>None\<close> the end of the loop.\<close>
  "retry_loop env word max_retries [] n = (None, n, [])"
| "retry_loop env word max_retries (attempt # rest) n =
     (case try_generate (api_generate env n) word of
        Returned definition \<Rightarrow>
          (Some definition, Suc n, [Post (OLLAMA_BASE_URL @ ''/api/generate'') word])
      | HttpFailure status_code \<Rightarrow>
          (case retry_loop env word max_retries rest (Suc n) of
             (r, n', evs) \<Rightarrow>
               (r, n', [Post (OLLAMA_BASE_URL @ ''/api/generate'') word,
                        Print (HttpError status_code word)]
                       @ wait_before_retry attempt max_retries @ evs))
      | Raised e \<Rightarrow>
          (case retry_loop env word max_retries rest (Suc n) of
             (r, n', evs) \<Rightarrow>
               (r, n', [Post (OLLAMA_BASE_URL @ ''/api/generate'') word,
                        Print (case e of
                                 Timeout \<Rightarrow> TimeoutFor word (attempt + 1) max_retries
                               | _ \<Rightarrow> ErrorGenerating word (attempt + 1) max_retries e)]
                       @ wait_before_retry attempt max_retries @ evs)))"

definition generate_definition_ollama :: "world \<Rightarrow> string \<Rightarrow> int \<Rightarrow> nat \<Rightarrow> string \<times> nat \<times> event list" where
  \<comment> \<open>The definition returned, the number of POST requests issued so far, the events.\<close>
  "generate_definition_ollama env word max_retries n =
     (case retry_loop env word max_retries [0..max_retries - 1] n of
        (Some definition, n', evs) \<Rightarrow> (definition, n', evs)
      | (None, n', evs) \<Rightarrow>
          (''Error: Failed to generate definition after '' @ str_int max_retries @ '' attempts'',
           n', evs))"

section \<open>\<open>load_data\<close>\<close>

definition load_data :: "world \<Rightarrow> (string list option \<times> reference_table option) \<times> event list" where
  "load_data env =
     (case word_csv env of
        FileNotFoundError \<Rightarrow>
          ((None, None), [Read_csv ''word.csv'', Print FileNotFound, Print MakeSure])
      | ReadError \<Rightarrow> ((None, None), [Read_csv ''word.csv'', Print ErrorLoading])
      | Loaded (NoWordColumn rows) \<Rightarrow>
          ((None, None), [Read_csv ''word.csv'', Print (WordListLoaded rows), Print ErrorLoading])
      | Loaded (Words words_list) \<Rightarrow>
          (case reference_csv env of
             FileNotFoundError \<Rightarrow>
               ((None, None),
                [Read_csv ''word.csv'', Print (WordListLoaded (length words_list)),
                 Read_csv ''reference.csv'', Print FileNotFound, Print MakeSure])
           | ReadError \<Rightarrow>
               ((None, None),
                [Read_csv ''word.csv'', Print (WordListLoaded (length words_list)),
                 Read_csv ''reference.csv'', Print ErrorLoading])
           | Loaded ref_df \<Rightarrow>
               ((Some words_list, Some ref_df),
                [Read_csv ''word.csv'', Print (WordListLoaded (length words_list)),
                 Read_csv ''reference.csv'', Print (ReferenceLoaded (length ref_df))])))"

section \<open>\<open>generate_definitions\<close>\<close>

definition lookup_reference :: "reference_table option \<Rightarrow> string \<Rightarrow> string option" where
  \<comment> \<open>lines 189 to 193: the rows whose word is the word, and the definition of the first
      of them.\<close>
  "lookup_reference ref_df word =
     (case ref_df of
        None \<Rightarrow> None
      | Some rows \<Rightarrow>
          (case filter (\<lambda>row. fst row = word) rows of
             [] \<Rightarrow> None
           | row # others \<Rightarrow> Some (snd row)))"

definition truthy :: "string option \<Rightarrow> bool" where
  \<comment> \<open>\<open>if reference_def:\<close> on \<open>None\<close> or a \<open>str\<close>\<close>
  "truthy v = (case v of None \<Rightarrow> False | Some s \<Rightarrow> s \<noteq> [])"

definition make_result :: "string \<Rightarrow> string \<Rightarrow> string option \<Rightarrow> result" where
  \<comment> \<open>lines 195 to 201\<close>
  "make_result word definition reference_def =
     [(''word'', word), (''generated_definition'', definition)]
     @ (if truthy reference_def then [(''reference_definition'', the reference_def)] else [])"

fun results_loop :: "world \<Rightarrow> reference_table option \<Rightarrow> string list \<Rightarrow> nat \<Rightarrow> result list \<times> nat \<times> event list" where
  \<comment> \<open>The \<open>for word in words_list\<close> loop: the records appended, in order.\<close>
  "results_loop env ref_df [] n = ([], n, [])"
| "results_loop env ref_df (word # words) n =
     (case generate_definition_ollama env word 3 n of
        (definition, n1, evs1) \<Rightarrow>
          (case results_loop env ref_df words n1 of
             (results, n2, evs2) \<Rightarrow>
               (make_result word definition (lookup_reference ref_df word) # results,
                n2, evs1 @ [Sleep 500] @ evs2)))"

definition generate_definitions :: "world \<Rightarrow> string list \<Rightarrow> reference_table option \<Rightarrow> nat \<Rightarrow> result list \<times> nat \<times> event list" where
  \<comment> \<open>The rows of the \<open>DataFrame\<close> returned (one row for each record, in the order of the
      list), the number of POST requests issued so far, the events.\<close>
  "generate_definitions env words_list ref_df n =
     (case results_loop env ref_df words_list n of
        (results, n', evs) \<Rightarrow> (results, n', Print (Generating (length words_list)) # evs))"

section \<open>\<open>main\<close>\<close>

definition main :: "world \<Rightarrow> event list \<times> exn option" where
  \<comment> \<open>The events of a run and the exception that ends it, if one does.\<close>
  "main env =
     (case check_ollama_connection env of
        (available, evs0) \<Rightarrow>
          if \<not> available then ([Print Banner, Print Rule] @ evs0, None)
          else
            (case load_data env of
               ((None, ref_df), evs1) \<Rightarrow> ([Print Banner, Print Rule] @ evs0 @ evs1, None)
             | ((Some words_list, ref_df), evs1) \<Rightarrow>
                 (case generate_definitions env words_list ref_df 0 of
                    (results_df, n, evs2) \<Rightarrow>
                      if to_csv_raises env then
                        ([Print Banner, Print Rule] @ evs0 @ evs1 @ evs2
                         @ [To_csv ''generated_definitions_ollama.csv'' results_df],
                         Some OtherException)
                      else
                        ([Print Banner, Print Rule] @ evs0 @ evs1 @ evs2
                         @ [To_csv ''generated_definitions_ollama.csv'' results_df,
                            Print (Saved ''generated_definitions_ollama.csv''),
                            Print Complete],
                         None))))"

definition touches_work :: "event \<Rightarrow> bool" where
  \<comment> \<open>The events past the connectivity probe: a generation request, a wait, reading an
      input file, writing the output file.\<close>
  "touches_work ev =
     (case ev of Post url word \<Rightarrow> True | Sleep ms \<Rightarrow> True | Read_csv file \<Rightarrow> True
      | To_csv file rows \<Rightarrow> True | _ \<Rightarrow> False)"

definition attempt_fails :: "reply \<Rightarrow> bool" where
  \<comment> \<open>A generation attempt that does not return: the request raises, the status is not
      200, or reading the text out of the body raises.\<close>
  "attempt_fails r =
     (case r of
        Raises e \<Rightarrow> True
      | Reply status_code body \<Rightarrow> status_code \<noteq> 200 \<or> isl (response_text body))"

section \<open>Example worlds\<close>

definition unreachable :: world where
  \<comment> \<open>No server is listening: every request raises a connection error.\<close>
  "unreachable =
     \<lparr>api_version = Raises ConnectionError, api_tags = Raises ConnectionError,
      api_generate = (\<lambda>n. Raises ConnectionError),
      word_csv = Loaded (Words [''meja'']),
      reference_csv = Loaded [(''meja'', ''perabot datar berkaki'')],
      to_csv_raises = False\<rparr>"

definition ready :: world where
  \<comment> \<open>The server runs, has the model, and answers every generation request alike.\<close>
  "ready =
     \<lparr>api_version = Reply 200 (Some (JObject [(''version'', JString ''0.5.1'')])),
      api_tags = Reply 200 (Some (JObject [(''models'',
                   JArray [JObject [(''name'', JString ''llama3.2:3b'')]])])),
      api_generate = (\<lambda>n. Reply 200 (Some (JObject [(''response'',
                   JString '' meja: perabot datar berkaki '')]))),
      word_csv = Loaded (Words [''meja'', ''kursi'']),
      reference_csv = Loaded [(''meja'', ''perabot datar berkaki'')],
      to_csv_raises = False\<rparr>"

definition nameless_descriptor :: world where
  \<comment> \<open>As \<open>ready\<close>, but the model list starts with a descriptor that has no name.\<close>
  "nameless_descriptor =
     ready\<lparr>api_tags := Reply 200 (Some (JObject [(''models'',
                   JArray [JObject [], JObject [(''name'', JString ''llama3.2:3b'')]])]))\<rparr>"

definition no_models_field :: world where
  \<comment> \<open>As \<open>ready\<close>, but the body of the model list has no field \<open>models\<close>.\<close>
  "no_models_field = ready\<lparr>api_tags := Reply 200 (Some (JObject []))\<rparr>"

section \<open>Properties of \<open>clean_definition\<close>\<close>

subsection \<open>Every step removes a prefix or trims\<close>

lemma suffix_star: "suffix (star P s) s"
  by (simp add: star_def suffix_dropWhile)

lemma suffix_opt_chr: "suffix (opt_chr x s) s"
  by (cases s) (auto simp: opt_chr_def suffix_ConsI)

lemma suffix_chr1: "chr1 x s = Some r \<Longrightarrow> suffix r s"
  by (cases s) (auto simp: chr1_def suffix_ConsI split: if_splits)

lemma suffix_plus1: "plus1 P s = Some r \<Longrightarrow> suffix r s"
  by (cases s) (auto simp: plus1_def intro: suffix_ConsI suffix_star split: if_splits)

lemma suffix_lit_ci: "lit_ci w s = Some r \<Longrightarrow> suffix r s"
  by (induction w s rule: lit_ci.induct) (auto intro: suffix_ConsI split: if_splits)

lemma suffix_pattern: "pattern w s = Some r \<Longrightarrow> suffix r s"
proof -
  assume "pattern w s = Some r"
  then obtain a b where a: "lit_ci w s = Some a"
    and b: "chr1 (CHR '':'') (star isspace a) = Some b" and r: "r = star isspace b"
    by (auto simp: pattern_def bind_eq_Some_conv)
  have "suffix b (star isspace a)" using b by (rule suffix_chr1)
  then have "suffix b s"
    using suffix_star suffix_lit_ci[OF a] by (blast intro: suffix_order.trans)
  then show ?thesis unfolding r using suffix_star by (blast intro: suffix_order.trans)
qed

lemma suffix_colon_pattern: "colon_pattern s = Some r \<Longrightarrow> suffix r s"
proof -
  assume "colon_pattern s = Some r"
  then obtain b where b: "chr1 (CHR '':'') s = Some b" and r: "r = star isspace b"
    by (auto simp: colon_pattern_def bind_eq_Some_conv)
  show ?thesis unfolding r using suffix_star suffix_chr1[OF b] by (blast intro: suffix_order.trans)
qed

lemma suffix_word_pattern: "word_pattern w s = Some r \<Longrightarrow> suffix r s"
proof -
  assume "word_pattern w s = Some r"
  then obtain a where a: "lit_ci w s = Some a"
    and r: "r = star isspace (opt_chr (CHR ''.'') (star isdigit (star isspace a)))"
    by (auto simp: word_pattern_def bind_eq_Some_conv)
  have "suffix r a"
    unfolding r using suffix_star suffix_opt_chr by (blast intro: suffix_order.trans)
  then show ?thesis using suffix_lit_ci[OF a] by (blast intro: suffix_order.trans)
qed

lemma suffix_numbering_pattern: "numbering_pattern s = Some r \<Longrightarrow> suffix r s"
proof -
  assume "numbering_pattern s = Some r"
  then obtain a where a: "plus1 isdigit s = Some a"
    and r: "r = star isspace (opt_chr (CHR ''.'') a)"
    by (auto simp: numbering_pattern_def bind_eq_Some_conv)
  have "suffix r a"
    unfolding r using suffix_star suffix_opt_chr by (blast intro: suffix_order.trans)
  then show ?thesis using suffix_plus1[OF a] by (blast intro: suffix_order.trans)
qed

lemma sublist_re_sub:
  assumes "\<And>r. p s = Some r \<Longrightarrow> suffix r s"
  shows "sublist (re_sub p s) s"
  using assms by (cases "p s") (auto simp: re_sub_def)

lemma sublist_strip: "sublist (strip s) s"
proof -
  have "suffix (dropWhile isspace (rev (dropWhile isspace s))) (rev (dropWhile isspace s))"
    by (rule suffix_dropWhile)
  then have "sublist (dropWhile isspace (rev (dropWhile isspace s))) (rev (dropWhile isspace s))"
    by (rule suffix_imp_sublist)
  then have "sublist (strip s) (dropWhile isspace s)"
    by (simp add: strip_def sublist_rev_left)
  moreover have "sublist (dropWhile isspace s) s"
    by (rule suffix_imp_sublist) (rule suffix_dropWhile)
  ultimately show ?thesis by (rule sublist_order.order.trans)
qed

lemma sublist_strip_re_sub:
  assumes "\<And>r. p s = Some r \<Longrightarrow> suffix r s"
  shows "sublist (strip (re_sub p s)) s"
  using sublist_strip sublist_re_sub[of p s, OF assms] by (blast intro: sublist_order.order.trans)

lemma sublist_remove_prefix: "sublist (remove_prefix d p) d"
proof (cases "startswith (lower d) p")
  case True
  have "sublist (drop (length p) d) d" by (rule suffix_imp_sublist) (rule suffix_drop)
  then show ?thesis
    using True sublist_strip by (auto simp: remove_prefix_def intro: sublist_order.order.trans)
next
  case False
  then show ?thesis by (simp add: remove_prefix_def)
qed

lemma sublist_foldl_remove_prefix: "sublist (foldl remove_prefix d ps) d"
proof (induction ps arbitrary: d)
  case Nil
  show ?case by simp
next
  case (Cons p ps)
  have "sublist (foldl remove_prefix (remove_prefix d p) ps) (remove_prefix d p)"
    by (rule Cons.IH)
  then show ?case using sublist_remove_prefix by (auto intro: sublist_order.order.trans)
qed

lemma sublist_clean_definition: "sublist (clean_definition w s) s"
proof -
  define d1 where "d1 = strip (re_sub (pattern w) s)"
  define d2 where "d2 = strip (re_sub colon_pattern d1)"
  define d3 where "d3 = (if startswith (lower d2) (lower w)
                then strip (re_sub (word_pattern w) d2) else d2)"
  define d4 where "d4 = strip (re_sub numbering_pattern d3)"
  have c: "clean_definition w s = foldl remove_prefix d4 unwanted_prefixes"
    by (simp add: clean_definition_def d1_def d2_def d3_def d4_def)
  have 1: "sublist d1 s" unfolding d1_def by (rule sublist_strip_re_sub) (rule suffix_pattern)
  have 2: "sublist d2 d1" unfolding d2_def by (rule sublist_strip_re_sub) (rule suffix_colon_pattern)
  have 3: "sublist d3 d2" unfolding d3_def
    using sublist_strip_re_sub[of "word_pattern w" d2, OF suffix_word_pattern] by simp
  have 4: "sublist d4 d3" unfolding d4_def by (rule sublist_strip_re_sub) (rule suffix_numbering_pattern)
  have 5: "sublist (clean_definition w s) d4" unfolding c by (rule sublist_foldl_remove_prefix)
  from 5 4 3 2 1 show ?thesis by (blast intro: sublist_order.order.trans)
qed

text \<open>
  Claim C7. \<open>clean("kudus", "Kudus 2. suci")\<close> is \<open>"suci"\<close>: the first pattern does not
  match (no colon follows the word), the text still begins with the word up to case,
  and the word pattern removes the word together with the numeral and the period.
\<close>

theorem clean_kudus_example:
  "clean_definition ''kudus'' ''Kudus 2. suci'' = ''suci''"
  by code_simp

text \<open>
  Claim C9. For every word and every text, the cleaned text is a contiguous part of
  the text it was made from: the text is some characters, then the cleaned text, then
  some more characters. In particular the cleaned text is not longer than the text.
\<close>

theorem clean_definition_contiguous:
  "(\<exists>before after. s = before @ clean_definition w s @ after)
   \<and> length (clean_definition w s) \<le> length s"
  using sublist_clean_definition[of w s] sublist_length_le[of "clean_definition w s" s]
  by (auto simp: sublist_def)

subsection \<open>The cleaned text is trimmed; a clean text is left as it is\<close>

lemma strip_strip: "strip (strip s) = strip s"
proof -
  define t where "t = dropWhile isspace s"
  define u where "u = dropWhile isspace (rev t)"
  have s: "strip s = rev u" by (simp add: strip_def t_def u_def)
  have "dropWhile isspace (rev u) = rev u"
  proof (cases "u = []")
    case True
    then show ?thesis by simp
  next
    case False
    have "suffix u (rev t)" unfolding u_def by (rule suffix_dropWhile)
    then obtain zs where zs: "rev t = zs @ u" by (auto simp: suffix_def)
    with False have "last u = last (rev t)" by simp
    moreover from zs False have "t \<noteq> []" by auto
    ultimately have "last u = hd t" by (simp add: last_rev)
    moreover have "\<not> isspace (hd t)"
      using \<open>t \<noteq> []\<close> unfolding t_def by (rule hd_dropWhile)
    ultimately have "\<not> isspace (hd (rev u))" using False by (simp add: hd_rev)
    then show ?thesis by (simp add: dropWhile_eq_self_iff)
  qed
  moreover have "dropWhile isspace u = u" unfolding u_def by (rule dropWhile_idem)
  ultimately have "strip (rev u) = rev u" by (simp add: strip_def)
  then show ?thesis by (simp add: s)
qed

lemma strip_remove_prefix: "strip d = d \<Longrightarrow> strip (remove_prefix d p) = remove_prefix d p"
  by (simp add: remove_prefix_def strip_strip)

lemma strip_foldl_remove_prefix:
  "strip d = d \<Longrightarrow> strip (foldl remove_prefix d ps) = foldl remove_prefix d ps"
  by (induction ps arbitrary: d) (simp_all add: strip_remove_prefix)

lemma strip_clean_definition: "strip (clean_definition w s) = clean_definition w s"
  by (simp add: clean_definition_def Let_def strip_foldl_remove_prefix strip_strip)

lemma lit_ci_prefix: "lit_ci w s = Some r \<Longrightarrow> prefix (lower w) (lower s)"
  by (induction w s rule: lit_ci.induct) (auto simp: lower_def split: if_splits)

lemma foldl_remove_prefix_id:
  "list_all (\<lambda>p. \<not> startswith (lower t) p) ps \<Longrightarrow> foldl remove_prefix t ps = t"
  by (induction ps) (simp_all add: remove_prefix_def)

lemma clean_definition_fixed:
  assumes st: "strip t = t" and na: "no_leading_artifact w t"
  shows "clean_definition w t = t"
proof -
  have "lit_ci w t = None"
    using na lit_ci_prefix[of w t] by (cases "lit_ci w t") (auto simp: no_leading_artifact_def startswith_def)
  then have 1: "re_sub (pattern w) t = t" by (simp add: re_sub_def pattern_def)
  have "chr1 (CHR '':'') t = None"
    using na by (cases t) (auto simp: no_leading_artifact_def startswith_def chr1_def)
  then have 2: "re_sub colon_pattern t = t" by (simp add: re_sub_def colon_pattern_def)
  have 3: "\<not> startswith (lower t) (lower w)" using na by (simp add: no_leading_artifact_def)
  have "plus1 isdigit t = None"
    using na by (cases t) (auto simp: no_leading_artifact_def plus1_def)
  then have 4: "re_sub numbering_pattern t = t" by (simp add: re_sub_def numbering_pattern_def)
  have 5: "foldl remove_prefix t unwanted_prefixes = t"
    using na by (intro foldl_remove_prefix_id) (simp add: no_leading_artifact_def)
  show ?thesis by (simp add: clean_definition_def 1 2 3 4 5 st)
qed

text \<open>
  Claim C2. Cleaning twice is not always the same as cleaning once: each step runs once,
  so a second numbering, a second colon or a second copy of the word survives the first
  pass and is removed by the second. What holds: for every word and every text, if the
  cleaned text begins with none of the things the cleaner removes (the word up to case,
  a colon, a digit, one of the four unwanted prefixes up to case), then cleaning it again
  returns it unchanged.
\<close>

theorem clean_definition_idempotent_if_clean:
  "no_leading_artifact w (clean_definition w s) \<Longrightarrow>
   clean_definition w (clean_definition w s) = clean_definition w s"
  by (rule clean_definition_fixed) (rule strip_clean_definition)

text \<open>The second example of the spec is such a text.\<close>

theorem clean_definition_idempotent_if_clean_witness:
  "no_leading_artifact ''komputer''
     (clean_definition ''komputer'' ''komputer: alat untuk mengolah data'')
   \<and> clean_definition ''komputer''
       (clean_definition ''komputer'' ''komputer: alat untuk mengolah data'')
       = clean_definition ''komputer'' ''komputer: alat untuk mengolah data''
   \<and> clean_definition ''komputer'' ''komputer: alat untuk mengolah data''
       = ''alat untuk mengolah data''"
proof -
  have h: "no_leading_artifact ''komputer''
      (clean_definition ''komputer'' ''komputer: alat untuk mengolah data'')"
    by code_simp
  have v: "clean_definition ''komputer'' ''komputer: alat untuk mengolah data''
      = ''alat untuk mengolah data''"
    by code_simp
  show ?thesis using h v clean_definition_idempotent_if_clean[OF h] by simp
qed

text \<open>
  A text with two numberings: the first pass turns \<open>1. 2. suci\<close> into \<open>2. suci\<close>, the
  second pass turns that into \<open>suci\<close>.
\<close>

theorem clean_definition_not_idempotent:
  "clean_definition ''kudus'' ''1. 2. suci'' = ''2. suci''
   \<and> clean_definition ''kudus'' (clean_definition ''kudus'' ''1. 2. suci'') = ''suci''
   \<and> clean_definition ''kudus'' (clean_definition ''kudus'' ''1. 2. suci'')
       \<noteq> clean_definition ''kudus'' ''1. 2. suci''"
  by code_simp

section \<open>Properties of \<open>generate_definitions\<close>\<close>

lemma results_loop_length: "length (fst (results_loop env ref_df ws n)) = length ws"
proof (induction ws arbitrary: n)
  case Nil
  show ?case by simp
next
  case (Cons w ws)
  obtain d n1 evs1 where g: "generate_definition_ollama env w 3 n = (d, n1, evs1)"
    by (cases "generate_definition_ollama env w 3 n") auto
  obtain rs n2 evs2 where r: "results_loop env ref_df ws n1 = (rs, n2, evs2)"
    by (cases "results_loop env ref_df ws n1") auto
  from Cons.IH[of n1] show ?case by (simp add: g r)
qed

lemma results_loop_nth:
  "i < length ws \<Longrightarrow>
   \<exists>d. fst (results_loop env ref_df ws n) ! i = make_result (ws ! i) d (lookup_reference ref_df (ws ! i))"
proof (induction ws arbitrary: n i)
  case Nil
  then show ?case by simp
next
  case (Cons w ws)
  obtain d n1 evs1 where g: "generate_definition_ollama env w 3 n = (d, n1, evs1)"
    by (cases "generate_definition_ollama env w 3 n") auto
  obtain rs n2 evs2 where r: "results_loop env ref_df ws n1 = (rs, n2, evs2)"
    by (cases "results_loop env ref_df ws n1") auto
  show ?case
  proof (cases i)
    case 0
    have "fst (results_loop env ref_df (w # ws) n) ! 0 = make_result w d (lookup_reference ref_df w)"
      by (simp add: g r)
    with 0 show ?thesis by auto
  next
    case (Suc j)
    with Cons.prems have "j < length ws" by simp
    from Cons.IH[OF this, of n1] show ?thesis by (simp add: g r Suc)
  qed
qed

lemma map_of_make_result_word: "map_of (make_result w d r) ''word'' = Some w"
  by (simp add: make_result_def)

lemma map_of_make_result_reference:
  "map_of (make_result w d r) ''reference_definition'' =
     (case r of None \<Rightarrow> None | Some x \<Rightarrow> if x = [] then None else Some x)"
  by (simp add: make_result_def truthy_def split: option.splits)

lemma fst_generate_definitions:
  "fst (generate_definitions env ws ref_df n) = fst (results_loop env ref_df ws n)"
  by (simp add: generate_definitions_def split: prod.splits)

lemma lookup_reference_first:
  "w \<notin> fst ` set before \<Longrightarrow> lookup_reference (Some (before @ (w, d) # after)) w = Some d"
proof -
  assume "w \<notin> fst ` set before"
  then have "filter (\<lambda>row. fst row = w) before = []"
    by (auto simp: filter_empty_conv)
  then show ?thesis by (simp add: lookup_reference_def)
qed

lemma lookup_reference_found:
  "(lookup_reference ref_df w \<noteq> None) = (\<exists>rows. ref_df = Some rows \<and> w \<in> fst ` set rows)"
proof (cases ref_df)
  case None
  then show ?thesis by (simp add: lookup_reference_def)
next
  case (Some rows)
  have "(filter (\<lambda>row. fst row = w) rows \<noteq> []) = (w \<in> fst ` set rows)"
    by (auto simp: filter_empty_conv)
  then show ?thesis using Some
    by (cases "filter (\<lambda>row. fst row = w) rows") (auto simp: lookup_reference_def)
qed

text \<open>
  Claim C3. For every word list (empty or not), every reference table and every
  behaviour of the server, the batch returns as many records as there are words, and the
  words of the records, read in order, are the words of the list.
\<close>

theorem one_record_per_word_in_order:
  "length (fst (generate_definitions env words_list ref_df n)) = length words_list
   \<and> map (\<lambda>r. map_of r ''word'') (fst (generate_definitions env words_list ref_df n))
       = map Some words_list"
proof -
  let ?rs = "fst (generate_definitions env words_list ref_df n)"
  have len: "length ?rs = length words_list"
    by (simp add: fst_generate_definitions results_loop_length)
  have "map (\<lambda>r. map_of r ''word'') ?rs = map Some words_list"
  proof (rule nth_equalityI)
    show "length (map (\<lambda>r. map_of r ''word'') ?rs) = length (map Some words_list)"
      using len by simp
  next
    fix i assume "i < length (map (\<lambda>r. map_of r ''word'') ?rs)"
    then have i: "i < length words_list" using len by simp
    from results_loop_nth[OF i, of env ref_df n]
    obtain d where "?rs ! i = make_result (words_list ! i) d (lookup_reference ref_df (words_list ! i))"
      by (auto simp: fst_generate_definitions)
    then show "map (\<lambda>r. map_of r ''word'') ?rs ! i = map Some words_list ! i"
      using i len by (simp add: map_of_make_result_word)
  qed
  with len show ?thesis by simp
qed

theorem one_record_per_word_in_order_witness:
  "fst (generate_definitions ready [''meja'', ''kursi'']
          (Some [(''meja'', ''perabot datar berkaki'')]) 0)
     = [[(''word'', ''meja''), (''generated_definition'', ''perabot datar berkaki''),
         (''reference_definition'', ''perabot datar berkaki'')],
        [(''word'', ''kursi''), (''generated_definition'', ''meja: perabot datar berkaki'')]]
   \<and> length (fst (generate_definitions ready [''meja'', ''kursi'']
          (Some [(''meja'', ''perabot datar berkaki'')]) 0)) = length [''meja'', ''kursi'']"
proof -
  have "fst (generate_definitions ready [''meja'', ''kursi'']
          (Some [(''meja'', ''perabot datar berkaki'')]) 0)
     = [[(''word'', ''meja''), (''generated_definition'', ''perabot datar berkaki''),
         (''reference_definition'', ''perabot datar berkaki'')],
        [(''word'', ''kursi''), (''generated_definition'', ''meja: perabot datar berkaki'')]]"
    by code_simp
  then show ?thesis
    using one_record_per_word_in_order[of ready "[''meja'', ''kursi'']"
        "Some [(''meja'', ''perabot datar berkaki'')]" 0]
    by simp
qed

text \<open>
  Claim C1. The field \<open>reference_definition\<close> of a record is not there exactly when the
  lookup succeeded: the code tests the value found for truth, and an empty definition
  is false. What holds: for every word of the list, the field is there if and only if
  the reference table has a row with exactly that word and the definition of the first
  such row is not the empty string; the field then holds that definition. The lookup
  succeeds if and only if there is a table and one of its rows has exactly that word.
\<close>

theorem reference_definition_iff_nonempty_match:
  assumes "i < length words_list"
  shows "map_of (fst (generate_definitions env words_list ref_df n) ! i) ''reference_definition''
           = (case lookup_reference ref_df (words_list ! i) of
                None \<Rightarrow> None
              | Some d \<Rightarrow> if d = [] then None else Some d)
         \<and> (lookup_reference ref_df (words_list ! i) \<noteq> None)
             = (\<exists>rows. ref_df = Some rows \<and> words_list ! i \<in> fst ` set rows)"
proof -
  from results_loop_nth[OF assms, of env ref_df n]
  obtain d where "fst (generate_definitions env words_list ref_df n) ! i
      = make_result (words_list ! i) d (lookup_reference ref_df (words_list ! i))"
    by (auto simp: fst_generate_definitions)
  then show ?thesis
    using lookup_reference_found[of ref_df "words_list ! i"]
    by (simp add: map_of_make_result_reference)
qed

text \<open>The example of the spec: \<open>meja\<close> has a reference definition, \<open>kursi\<close> has none.\<close>

theorem reference_definition_iff_nonempty_match_witness:
  "(0::nat) < length [''meja'', ''kursi'']
   \<and> map_of (fst (generate_definitions ready [''meja'', ''kursi'']
         (Some [(''meja'', ''perabot datar berkaki'')]) 0) ! 0) ''reference_definition''
       = Some ''perabot datar berkaki''
   \<and> (1::nat) < length [''meja'', ''kursi'']
   \<and> map_of (fst (generate_definitions ready [''meja'', ''kursi'']
         (Some [(''meja'', ''perabot datar berkaki'')]) 0) ! 1) ''reference_definition''
       = None"
proof -
  have h0: "(0::nat) < length [''meja'', ''kursi'']" by simp
  have h1: "(1::nat) < length [''meja'', ''kursi'']" by simp
  show ?thesis
    using reference_definition_iff_nonempty_match[OF h0, of ready
        "Some [(''meja'', ''perabot datar berkaki'')]" 0]
      reference_definition_iff_nonempty_match[OF h1, of ready
        "Some [(''meja'', ''perabot datar berkaki'')]" 0]
    by (simp add: lookup_reference_def)
qed

text \<open>
  A row with the word and an empty definition: the lookup succeeds and returns the empty
  string, and the record has no field \<open>reference_definition\<close>.
\<close>

theorem empty_reference_definition_is_dropped:
  "lookup_reference (Some [(''meja'', [])]) ''meja'' = Some []
   \<and> map_of (fst (generate_definitions unreachable [''meja''] (Some [(''meja'', [])]) 0) ! 0)
       ''reference_definition'' = None"
  by code_simp

text \<open>
  Claim C6. When the reference table has a row with the word of a record and no earlier
  row has that word, the lookup returns the definition of that row, whatever rows
  follow, and the record's field \<open>reference_definition\<close> is that definition (or is
  not there, when that definition is the empty string).
\<close>

theorem first_matching_row_wins:
  assumes "i < length words_list"
    and "ref_df = Some (before @ (words_list ! i, d) # after)"
    and "words_list ! i \<notin> fst ` set before"
  shows "lookup_reference ref_df (words_list ! i) = Some d
         \<and> map_of (fst (generate_definitions env words_list ref_df n) ! i) ''reference_definition''
             = (if d = [] then None else Some d)"
proof -
  have l: "lookup_reference ref_df (words_list ! i) = Some d"
    unfolding assms(2) using assms(3) by (rule lookup_reference_first)
  from results_loop_nth[OF assms(1), of env ref_df n]
  obtain g where "fst (generate_definitions env words_list ref_df n) ! i
      = make_result (words_list ! i) g (lookup_reference ref_df (words_list ! i))"
    by (auto simp: fst_generate_definitions)
  then show ?thesis using l by (simp add: map_of_make_result_reference)
qed

text \<open>Two rows for \<open>meja\<close>: the record takes the definition of the first.\<close>

theorem first_matching_row_wins_witness:
  "(0::nat) < length [''meja'']
   \<and> lookup_reference
        (Some ([] @ ([''meja''] ! 0, ''perabot datar berkaki'') # [(''meja'', ''papan'')]))
        ([''meja''] ! 0) = Some ''perabot datar berkaki''
   \<and> map_of (fst (generate_definitions ready [''meja'']
         (Some ([] @ ([''meja''] ! 0, ''perabot datar berkaki'') # [(''meja'', ''papan'')])) 0) ! 0)
       ''reference_definition'' = Some ''perabot datar berkaki''"
proof -
  have h0: "(0::nat) < length [''meja'']" by simp
  have h1: "[''meja''] ! 0 \<notin> fst ` set ([] :: (string \<times> string) list)" by simp
  show ?thesis
    using first_matching_row_wins[OF h0 refl h1,
        of "''perabot datar berkaki''" "[(''meja'', ''papan'')]" ready 0]
    by simp
qed

section \<open>Properties of \<open>generate_definition_ollama\<close>\<close>

lemma try_generate_fails:
  "attempt_fails r \<Longrightarrow> try_generate r w \<noteq> Returned d"
  by (auto simp: attempt_fails_def try_generate_def split: reply.splits sum.splits)

lemma retry_loop_all_fail:
  "(\<And>k. k < length as \<Longrightarrow> attempt_fails (api_generate env (n + k))) \<Longrightarrow>
   fst (retry_loop env w m as n) = None \<and> fst (snd (retry_loop env w m as n)) = n + length as"
proof (induction as arbitrary: n)
  case Nil
  show ?case by simp
next
  case (Cons a as)
  have "attempt_fails (api_generate env n)" using Cons.prems[of 0] by simp
  then have nr: "\<And>d. try_generate (api_generate env n) w \<noteq> Returned d"
    by (rule try_generate_fails)
  have "\<And>k. k < length as \<Longrightarrow> attempt_fails (api_generate env (Suc n + k))"
    using Cons.prems[of "Suc k" for k] by simp
  from Cons.IH[OF this]
  have ih: "fst (retry_loop env w m as (Suc n)) = None"
    "fst (snd (retry_loop env w m as (Suc n))) = Suc n + length as" by simp_all
  obtain r n' evs where rl: "retry_loop env w m as (Suc n) = (r, n', evs)"
    by (cases "retry_loop env w m as (Suc n)") auto
  from ih rl have "r = None" "n' = Suc n + length as" by simp_all
  show ?case
  proof (cases "try_generate (api_generate env n) w")
    case (Returned d)
    with nr show ?thesis by blast
  next
    case (HttpFailure c)
    then show ?thesis using rl \<open>r = None\<close> \<open>n' = Suc n + length as\<close> by simp
  next
    case (Raised e)
    then show ?thesis using rl \<open>r = None\<close> \<open>n' = Suc n + length as\<close> by simp
  qed
qed

lemma range_3: "[0..(3::int) - 1] = [0, 1, 2]"
  by code_simp

lemma sentinel_3:
  "''Error: Failed to generate definition after '' @ str_int 3 @ '' attempts''
     = ''Error: Failed to generate definition after 3 attempts''"
  by code_simp

text \<open>
  Claim C4. For every word, if the three generation attempts for it all fail (the
  request raises a timeout or another exception, the status is not 200, or the body
  cannot be read), \<open>generate_definition_ollama\<close> returns the sentinel
  \<open>Error: Failed to generate definition after 3 attempts\<close> after exactly three
  requests, and the batch goes on: the record of the word carries the sentinel and is
  followed by the records of the remaining words.
\<close>

theorem three_failures_give_sentinel:
  assumes "attempt_fails (api_generate env n)"
    and "attempt_fails (api_generate env (n + 1))"
    and "attempt_fails (api_generate env (n + 2))"
  shows "fst (generate_definition_ollama env word 3 n)
           = ''Error: Failed to generate definition after 3 attempts''
         \<and> fst (snd (generate_definition_ollama env word 3 n)) = n + 3
         \<and> fst (generate_definitions env (word # words) ref_df n)
             = make_result word ''Error: Failed to generate definition after 3 attempts''
                 (lookup_reference ref_df word)
               # fst (generate_definitions env words ref_df (n + 3))"
proof -
  have "\<And>k. k < length [0, 1, 2::int] \<Longrightarrow> attempt_fails (api_generate env (n + k))"
  proof -
    fix k assume "k < length [0, 1, 2::int]"
    then have "k = 0 \<or> k = 1 \<or> k = 2" by auto
    then show "attempt_fails (api_generate env (n + k))" using assms by auto
  qed
  from retry_loop_all_fail[of "[0, 1, 2]" env n word 3, OF this]
  obtain evs where rl: "retry_loop env word 3 [0, 1, 2] n = (None, n + 3, evs)"
    by (cases "retry_loop env word 3 [0, 1, 2] n") auto
  have g: "generate_definition_ollama env word 3 n
      = (''Error: Failed to generate definition after 3 attempts'', n + 3, evs)"
    unfolding generate_definition_ollama_def range_3 rl sentinel_3 by simp
  obtain rs n2 evs2 where r: "results_loop env ref_df words (n + 3) = (rs, n2, evs2)"
    by (cases "results_loop env ref_df words (n + 3)") auto
  have "fst (results_loop env ref_df (word # words) n)
      = make_result word ''Error: Failed to generate definition after 3 attempts''
          (lookup_reference ref_df word) # fst (results_loop env ref_df words (n + 3))"
    by (simp add: g r)
  then show ?thesis
    by (simp add: g generate_definitions_def split: prod.splits)
qed

text \<open>With no server listening, both words of a batch get the sentinel.\<close>

theorem three_failures_give_sentinel_witness:
  "attempt_fails (api_generate unreachable 0)
   \<and> attempt_fails (api_generate unreachable (0 + 1))
   \<and> attempt_fails (api_generate unreachable (0 + 2))
   \<and> fst (generate_definition_ollama unreachable ''meja'' 3 0)
       = ''Error: Failed to generate definition after 3 attempts''
   \<and> fst (generate_definitions unreachable (''meja'' # [''kursi'']) None 0)
       = [[(''word'', ''meja''),
           (''generated_definition'', ''Error: Failed to generate definition after 3 attempts'')],
          [(''word'', ''kursi''),
           (''generated_definition'', ''Error: Failed to generate definition after 3 attempts'')]]"
proof -
  have h0: "attempt_fails (api_generate unreachable 0)"
    by (simp add: unreachable_def attempt_fails_def)
  have h1: "attempt_fails (api_generate unreachable (0 + 1))"
    by (simp add: unreachable_def attempt_fails_def)
  have h2: "attempt_fails (api_generate unreachable (0 + 2))"
    by (simp add: unreachable_def attempt_fails_def)
  have r: "fst (generate_definitions unreachable [''kursi''] None (0 + 3))
      = [[(''word'', ''kursi''),
          (''generated_definition'', ''Error: Failed to generate definition after 3 attempts'')]]"
    by code_simp
  show ?thesis
    using three_failures_give_sentinel[OF h0 h1 h2, of "''meja''" "[''kursi'']" None] h0 h1 h2 r
    by (simp add: make_result_def lookup_reference_def truthy_def)
qed

section \<open>Properties of \<open>check_ollama_connection\<close> and \<open>main\<close>\<close>

lemma fst_check_ollama_connection:
  "fst (check_ollama_connection env) = (\<exists>evs. check_try env = (evs, Inr True))"
  by (cases "check_try env")
    (auto simp: check_ollama_connection_def split: sum.splits exn.splits)

lemma check_try_True:
  "(\<exists>evs. check_try env = (evs, Inr True)) =
   (\<exists>b body names. api_version env = Reply 200 b \<and> api_tags env = Reply 200 body
      \<and> model_names body = Inr names \<and> JString MODEL_NAME \<in> set names)"
  by (cases "api_version env"; cases "api_tags env")
    (auto simp: check_try_def split: sum.splits)

lemma check_try_no_work: "filter touches_work (fst (check_try env)) = []"
  by (cases "api_version env"; cases "api_tags env")
    (auto simp: check_try_def touches_work_def split: sum.splits)

lemma check_no_work: "filter touches_work (snd (check_ollama_connection env)) = []"
  using check_try_no_work[of env]
  by (cases "check_try env")
    (auto simp: check_ollama_connection_def touches_work_def split: sum.splits exn.splits)

lemma names_of_dicts:
  "(\<And>d. d \<in> set ds \<Longrightarrow> \<exists>fields. d = JObject fields) \<Longrightarrow>
   \<exists>names. names_of ds = Inr names \<and>
     (JString MODEL_NAME \<in> set names) =
       (\<exists>fields. JObject fields \<in> set ds \<and> map_of fields ''name'' = Some (JString MODEL_NAME))"
proof (induction ds)
  case Nil
  show ?case by simp
next
  case (Cons d ds)
  from Cons.prems obtain fields where d: "d = JObject fields" by auto
  from Cons have "\<exists>names. names_of ds = Inr names \<and>
     (JString MODEL_NAME \<in> set names) =
       (\<exists>fields. JObject fields \<in> set ds \<and> map_of fields ''name'' = Some (JString MODEL_NAME))"
    by simp
  then obtain names where n: "names_of ds = Inr names"
    and i: "(JString MODEL_NAME \<in> set names) =
       (\<exists>fields. JObject fields \<in> set ds \<and> map_of fields ''name'' = Some (JString MODEL_NAME))"
    by blast
  show ?case
  proof (cases "map_of fields ''name''")
    case None
    then show ?thesis using n i d by (auto simp: dict_get_def MODEL_NAME_def)
  next
    case (Some v)
    then show ?thesis using n i d by (auto simp: dict_get_def)
  qed
qed

text \<open>
  Claim C5. \<open>check_ollama_connection\<close> returns true if and only if the version request
  is answered with status 200, the model list request is answered with status 200, the
  names can be read out of its body, and the configured model name is one of them. In
  every other case it returns false; in particular it returns false, and raises
  nothing, when one of the two requests raises.
\<close>

theorem check_true_iff_model_listed:
  "fst (check_ollama_connection env)
     = (\<exists>b body names. api_version env = Reply 200 b \<and> api_tags env = Reply 200 body
          \<and> model_names body = Inr names \<and> JString MODEL_NAME \<in> set names)
   \<and> (api_version env = Raises e \<longrightarrow> \<not> fst (check_ollama_connection env))
   \<and> (api_tags env = Raises e \<longrightarrow> \<not> fst (check_ollama_connection env))"
  unfolding fst_check_ollama_connection check_try_True by auto

theorem check_true_iff_model_listed_witness:
  "fst (check_ollama_connection ready)
   \<and> api_version unreachable = Raises ConnectionError
   \<and> api_tags unreachable = Raises ConnectionError
   \<and> \<not> fst (check_ollama_connection unreachable)"
proof -
  have r: "fst (check_ollama_connection ready)" by code_simp
  have u: "api_version unreachable = Raises ConnectionError" by (simp add: unreachable_def)
  have t: "api_tags unreachable = Raises ConnectionError" by (simp add: unreachable_def)
  show ?thesis
    using check_true_iff_model_listed[of unreachable ConnectionError] r u t by simp
qed

text \<open>
  Claim C8. If \<open>check_ollama_connection\<close> returns false, \<open>main\<close> returns at once: its
  events are the two banner lines and the events of the probe, and none of them is a
  generation request, a wait, a read of an input file or a write of the output file.
\<close>

theorem failed_probe_stops_pipeline:
  assumes "\<not> fst (check_ollama_connection env)"
  shows "main env = ([Print Banner, Print Rule] @ snd (check_ollama_connection env), None)
         \<and> filter touches_work (fst (main env)) = []"
proof -
  have m: "main env = ([Print Banner, Print Rule] @ snd (check_ollama_connection env), None)"
    using assms by (cases "check_ollama_connection env") (simp add: main_def)
  show ?thesis unfolding m using check_no_work[of env] by (simp add: touches_work_def)
qed

theorem failed_probe_stops_pipeline_witness:
  "\<not> fst (check_ollama_connection unreachable)
   \<and> main unreachable
       = ([Print Banner, Print Rule, Get ''http://localhost:11434/api/version'',
           Print CannotConnect], None)"
proof -
  have h: "\<not> fst (check_ollama_connection unreachable)" by code_simp
  have s: "snd (check_ollama_connection unreachable)
      = [Get ''http://localhost:11434/api/version'', Print CannotConnect]" by code_simp
  show ?thesis using failed_probe_stops_pipeline[OF h] h s by simp
qed

text \<open>
  Claim C10. A descriptor without a name does not by itself make the probe fail: its
  name counts as the empty string, and the probe still returns true when another
  descriptor carries the model name. What holds, when both requests are answered with
  status 200 and the body of the model list is an object: if the body has no field
  \<open>models\<close>, the list of names is empty, the probe reports the model as not found and
  returns false; if the field \<open>models\<close> is a list of objects, the probe returns true
  if and only if one of them has the model name as its \<open>name\<close>, so that an object
  without a name never counts. Nothing is raised in either case.
\<close>

theorem missing_fields_are_defaulted:
  assumes "api_version env = Reply 200 b"
    and "api_tags env = Reply 200 (Some (JObject items))"
  shows "(map_of items ''models'' = None \<longrightarrow>
            check_ollama_connection env =
              (False, [Get (OLLAMA_BASE_URL @ ''/api/version''), Print OllamaRunning,
                       Get (OLLAMA_BASE_URL @ ''/api/tags''),
                       Print (ModelNotFound MODEL_NAME []), Print (PleaseRun MODEL_NAME)]))
         \<and> (map_of items ''models'' = Some (JArray descriptors)
              \<and> (\<forall>d \<in> set descriptors. \<exists>fields. d = JObject fields) \<longrightarrow>
            fst (check_ollama_connection env) =
              (\<exists>fields. JObject fields \<in> set descriptors
                 \<and> map_of fields ''name'' = Some (JString MODEL_NAME)))"
proof (intro conjI impI)
  assume "map_of items ''models'' = None"
  then have "model_names (Some (JObject items)) = Inr []"
    by (simp add: model_names_def dict_get_def iterate_def)
  then have "check_try env = ([Get (OLLAMA_BASE_URL @ ''/api/version''), Print OllamaRunning,
                       Get (OLLAMA_BASE_URL @ ''/api/tags''),
                       Print (ModelNotFound MODEL_NAME []), Print (PleaseRun MODEL_NAME)], Inr False)"
    using assms by (simp add: check_try_def)
  then show "check_ollama_connection env =
              (False, [Get (OLLAMA_BASE_URL @ ''/api/version''), Print OllamaRunning,
                       Get (OLLAMA_BASE_URL @ ''/api/tags''),
                       Print (ModelNotFound MODEL_NAME []), Print (PleaseRun MODEL_NAME)])"
    by (simp add: check_ollama_connection_def)
next
  assume a: "map_of items ''models'' = Some (JArray descriptors)
              \<and> (\<forall>d \<in> set descriptors. \<exists>fields. d = JObject fields)"
  then have "\<And>d. d \<in> set descriptors \<Longrightarrow> \<exists>fields. d = JObject fields" by blast
  from names_of_dicts[OF this] obtain names where n: "names_of descriptors = Inr names"
    and i: "(JString MODEL_NAME \<in> set names) =
       (\<exists>fields. JObject fields \<in> set descriptors \<and> map_of fields ''name'' = Some (JString MODEL_NAME))"
    by blast
  have mn: "model_names (Some (JObject items)) = Inr names"
    using a n by (simp add: model_names_def dict_get_def iterate_def)
  have "fst (check_ollama_connection env) = (JString MODEL_NAME \<in> set names)"
    unfolding fst_check_ollama_connection check_try_True using assms mn by auto
  then show "fst (check_ollama_connection env) =
              (\<exists>fields. JObject fields \<in> set descriptors
                 \<and> map_of fields ''name'' = Some (JString MODEL_NAME))"
    using i by simp
qed

theorem missing_fields_are_defaulted_witness:
  "api_version no_models_field = Reply 200 (Some (JObject [(''version'', JString ''0.5.1'')]))
   \<and> api_tags no_models_field = Reply 200 (Some (JObject []))
   \<and> check_ollama_connection no_models_field
       = (False, [Get ''http://localhost:11434/api/version'', Print OllamaRunning,
                  Get ''http://localhost:11434/api/tags'',
                  Print (ModelNotFound ''llama3.2:3b'' []), Print (PleaseRun ''llama3.2:3b'')])
   \<and> \<not> fst (check_ollama_connection
              (ready\<lparr>api_tags := Reply 200 (Some (JObject [(''models'', JArray [JObject []])]))\<rparr>))"
proof -
  have v: "api_version no_models_field
      = Reply 200 (Some (JObject [(''version'', JString ''0.5.1'')]))"
    by (simp add: no_models_field_def ready_def)
  have t: "api_tags no_models_field = Reply 200 (Some (JObject []))"
    by (simp add: no_models_field_def ready_def)
  have v': "api_version
        (ready\<lparr>api_tags := Reply 200 (Some (JObject [(''models'', JArray [JObject []])]))\<rparr>)
      = Reply 200 (Some (JObject [(''version'', JString ''0.5.1'')]))"
    by (simp add: ready_def)
  have t': "api_tags
        (ready\<lparr>api_tags := Reply 200 (Some (JObject [(''models'', JArray [JObject []])]))\<rparr>)
      = Reply 200 (Some (JObject [(''models'', JArray [JObject []])]))"
    by simp
  show ?thesis
    using missing_fields_are_defaulted[OF v t, of "[]"]
      missing_fields_are_defaulted[OF v' t', of "[JObject []]"] v t
    by (simp add: OLLAMA_BASE_URL_def MODEL_NAME_def)
qed

text \<open>
  A model list whose first descriptor has no name and whose second descriptor is the
  model: the probe returns true.
\<close>

theorem nameless_descriptor_still_available:
  "api_tags nameless_descriptor
     = Reply 200 (Some (JObject [(''models'',
         JArray [JObject [], JObject [(''name'', JString ''llama3.2:3b'')]])]))
   \<and> check_ollama_connection nameless_descriptor
       = (True, [Get ''http://localhost:11434/api/version'', Print OllamaRunning,
                 Get ''http://localhost:11434/api/tags'',
                 Print (ModelAvailable ''llama3.2:3b'')])"
  by code_simp

end
